theory Spec2Isabelle
  imports Main "HOL-Library.Word" "HOL-Library.Multiset"
begin

unbundle bit_operations_syntax

section \<open>Data model of package grade\<close>

text \<open>
  Go's \<^verbatim>\<open>error\<close> interface. \<^verbatim>\<open>errors.New(s)\<close> builds an error whose only content is
  the text \<open>s\<close>; errors coming from the parser or from the client are values of the same
  type.
\<close>

datatype error = errorString string

text \<open>
  \<^verbatim>\<open>time.Time\<close> of the standard library, as far as \<^verbatim>\<open>Unix()\<close> reads it: the seconds
  since 1 January of year 1 (an int64) and the nanoseconds within that second. The zero
  value of the type has both fields 0. \<^verbatim>\<open>Unix()\<close> adds the constant
  \<^verbatim>\<open>internalToUnix\<close> in int64 arithmetic and drops the nanoseconds.
\<close>

record Time =
  sec :: "64 word"
  nsec :: "32 word"

definition unixToInternal :: "64 word" where
  "unixToInternal = (1969 * 365 + 1969 div 4 - 1969 div 100 + 1969 div 400) * 86400"

definition internalToUnix :: "64 word" where
  "internalToUnix = - unixToInternal"

definition Unix :: "Time \<Rightarrow> 64 word" where
  "Unix t = sec t + internalToUnix"

definition zeroTime :: Time where
  "zeroTime = \<lparr>sec = 0, nsec = 0\<rparr>"

text \<open>\<^verbatim>\<open>type Config struct\<close> (grade.go, lines 15 to 32).\<close>

record Config =
  Database :: string
  GoVersion :: string
  Timestamp :: Time
  Revision :: string
  HardwareID :: string

text \<open>A float64 is carried as its 64-bit IEEE-754 pattern; the package never computes with it.\<close>

type_synonym float64 = "64 word"

text \<open>
  Modelled from the spec: the declaration of \<^verbatim>\<open>parse.Benchmark\<close> is not among the
  sources. The fields are the ones grade.go reads, with the types the spec's data model
  gives them: Go \<^verbatim>\<open>int\<close> for \<open>N\<close>, \<open>NumCPU\<close> and the mask \<open>Measured\<close> (no arithmetic
  is done on them, so they are mathematical integers here, and the bitwise AND on \<open>int\<close>
  is the two's-complement one), float64 for the two rates and uint64 for the two
  allocation counters.
\<close>

record Benchmark =
  Name :: string
  NumCPU :: int
  N :: int
  NsPerOp :: float64
  MBPerS :: float64
  AllocedBytesPerOp :: "64 word"
  AllocsPerOp :: "64 word"
  Measured :: int

text \<open>
  The mask constants \<^verbatim>\<open>parse.NsPerOp\<close>, \<^verbatim>\<open>parse.MBPerS\<close>, \<^verbatim>\<open>parse.AllocedBytesPerOp\<close> and
  \<^verbatim>\<open>parse.AllocsPerOp\<close> are declared outside the sources; they are parameters of the model.
\<close>

record parse_flags =
  parse_NsPerOp :: int
  parse_MBPerS :: int
  parse_AllocedBytesPerOp :: int
  parse_AllocsPerOp :: int

text \<open>
  The values stored in \<^verbatim>\<open>map[string]interface{}\<close>: a string, a Go \<^verbatim>\<open>int\<close>, a float64 or
  an int64 (given by its signed value).
\<close>

datatype field_value = FString string | FInt int | FFloat64 float64 | FInt64 int

text \<open>
  The conversion \<^verbatim>\<open>int64(v)\<close> of a uint64: the 64 bits are kept and read as a two's
  complement number.
\<close>

definition int64 :: "64 word \<Rightarrow> int" where
  "int64 v = sint v"

section \<open>Config.validate\<close>

text \<open>\<^verbatim>\<open>strings.Join(elems, sep)\<close>.\<close>

fun Join :: "string list \<Rightarrow> string \<Rightarrow> string" where
  "Join [] sep = []"
| "Join [x] sep = x"
| "Join (x # y # ys) sep = x @ sep @ Join (y # ys) sep"

text \<open>
  \<^verbatim>\<open>func (cfg Config) validate() error\<close> (grade.go, lines 34 to 62). The slice
  \<open>msg\<close> is threaded through the five checks; \<open>None\<close> is the nil error.
\<close>

definition validate :: "Config \<Rightarrow> error option" where
  "validate cfg =
    (let msg = [];
         msg = (if Database cfg = [] then msg @ [''Database cannot be empty''] else msg);
         msg = (if GoVersion cfg = [] then msg @ [''Go version cannot be empty''] else msg);
         msg = (if sint (Unix (Timestamp cfg)) \<le> 0
                then msg @ [''Timestamp must be greater than zero''] else msg);
         msg = (if Revision cfg = [] then msg @ [''Revision cannot be empty''] else msg);
         msg = (if HardwareID cfg = [] then msg @ [''Hardware ID cannot be empty''] else msg)
     in if length msg > 0 then Some (errorString (Join msg ''\<newline>'')) else None)"

section \<open>makeFields\<close>

text \<open>\<^verbatim>\<open>func makeFields(b *parse.Benchmark, revision string)\<close> (grade.go, lines 106 to 126).\<close>

definition makeFields :: "parse_flags \<Rightarrow> Benchmark \<Rightarrow> string \<Rightarrow> (string \<rightharpoonup> field_value)" where
  "makeFields fl b revision =
    (let f = Map.empty;
         f = f(''revision'' \<mapsto> FString revision);
         f = f(''n'' \<mapsto> FInt (N b));
         f = (if Measured b AND parse_NsPerOp fl \<noteq> 0
              then f(''ns_per_op'' \<mapsto> FFloat64 (NsPerOp b)) else f);
         f = (if Measured b AND parse_MBPerS fl \<noteq> 0
              then f(''mb_per_s'' \<mapsto> FFloat64 (MBPerS b)) else f);
         f = (if Measured b AND parse_AllocedBytesPerOp fl \<noteq> 0
              then f(''alloced_bytes_per_op'' \<mapsto> FInt64 (int64 (AllocedBytesPerOp b))) else f);
         f = (if Measured b AND parse_AllocsPerOp fl \<noteq> 0
              then f(''allocs_per_op'' \<mapsto> FInt64 (int64 (AllocsPerOp b))) else f)
     in f)"

section \<open>Run\<close>

text \<open>\<^verbatim>\<open>strconv.Itoa\<close>: the decimal digits of a Go \<^verbatim>\<open>int\<close>, with a minus sign below zero.\<close>

fun digits :: "nat \<Rightarrow> string" where
  "digits n = (if n < 10 then [''0123456789'' ! n]
               else digits (n div 10) @ [''0123456789'' ! (n mod 10)])"

declare digits.simps [simp del]

definition Itoa :: "int \<Rightarrow> string" where
  "Itoa i = (if i < 0 then CHR ''-'' # digits (nat (- i)) else digits (nat i))"

text \<open>
  \<^verbatim>\<open>client.Point\<close> and \<^verbatim>\<open>client.BatchPoints\<close> of the InfluxDB client, with the fields
  that the composite literals of \<^verbatim>\<open>Run\<close> set; every other field keeps its zero value.
\<close>

record Point =
  Measurement :: string
  Tags :: "string \<rightharpoonup> string"
  Fields :: "string \<rightharpoonup> field_value"

record BatchPoints =
  bp_Database :: string
  bp_Tags :: "string \<rightharpoonup> string"
  bp_Time :: Time
  bp_Precision :: string
  bp_Points :: "Point list"

text \<open>
  What \<^verbatim>\<open>Run\<close> acts on: the unread input of the \<^verbatim>\<open>io.Reader\<close>, and the batches the
  client has been asked to write, oldest first.
\<close>

record world =
  reader :: string
  written :: "BatchPoints list"

text \<open>
  The value named \<open>benchset\<close>: a Go map from package name to a slice of benchmarks
  (the loop \<^verbatim>\<open>for pkg, bs := range benchset\<close> uses \<open>pkg\<close> as a string and ranges over
  \<open>bs\<close>). The slice elements are taken to be non-nil.
\<close>

type_synonym benchset = "string \<rightharpoonup> Benchmark list"

text \<open>
  \<^verbatim>\<open>parse.ParseMultipleBenchmarks\<close> is not among the sources and is a parameter: from
  the unread input it gives the two results of the Go function (the map, and the error or
  nil) and the input left unread. \<^verbatim>\<open>cl.Write\<close> belongs to the InfluxDB client and is
  a parameter too: the error, or nil, with which it answers a batch.
\<close>

type_synonym parser = "string \<Rightarrow> (benchset \<times> error option) \<times> string"

type_synonym writer = "BatchPoints \<Rightarrow> error option"

text \<open>
  A \<^verbatim>\<open>range\<close> over a Go map visits every key once, in an order the language does not
  fix and that may differ from one execution to the next. The order of one execution is
  a list of keys; \<open>range_order\<close> says which lists can arise.
\<close>

definition range_order :: "('k \<rightharpoonup> 'v) \<Rightarrow> 'k list \<Rightarrow> bool" where
  "range_order m ks \<longleftrightarrow> distinct ks \<and> set ks = dom m"

text \<open>The composite literal \<^verbatim>\<open>client.Point{...}\<close> (grade.go, lines 88 to 96).\<close>

definition mkPoint :: "parse_flags \<Rightarrow> Config \<Rightarrow> string \<Rightarrow> Benchmark \<Rightarrow> Point" where
  "mkPoint fl cfg pkg b =
    \<lparr>Measurement = ''benchmarks'',
     Tags = [''pkg'' \<mapsto> pkg, ''ncpu'' \<mapsto> Itoa (NumCPU b), ''name'' \<mapsto> Name b],
     Fields = makeFields fl b (Revision cfg)\<rparr>"

text \<open>The inner loop \<^verbatim>\<open>for _, b := range bs\<close>, appending to \<^verbatim>\<open>bp.Points\<close>.\<close>

fun range_bs :: "parse_flags \<Rightarrow> Config \<Rightarrow> string \<Rightarrow> Benchmark list \<Rightarrow> Point list \<Rightarrow> Point list" where
  "range_bs fl cfg pkg [] pts = pts"
| "range_bs fl cfg pkg (b # bs) pts = range_bs fl cfg pkg bs (pts @ [mkPoint fl cfg pkg b])"

text \<open>
  The outer loop \<^verbatim>\<open>for pkg, bs := range benchset\<close>, over the keys in the order of this
  execution. A key of a \<open>range_order\<close> is always bound; for any other list the unbound
  key contributes nothing.
\<close>

fun range_benchset :: "parse_flags \<Rightarrow> Config \<Rightarrow> benchset \<Rightarrow> string list \<Rightarrow> Point list \<Rightarrow> Point list" where
  "range_benchset fl cfg benchset [] pts = pts"
| "range_benchset fl cfg benchset (pkg # ks) pts =
     (case benchset pkg of
        None \<Rightarrow> range_benchset fl cfg benchset ks pts
      | Some bs \<Rightarrow> range_benchset fl cfg benchset ks (range_bs fl cfg pkg bs pts))"

text \<open>The batch as it stands when \<^verbatim>\<open>cl.Write\<close> is called (grade.go, lines 76 to 100).\<close>

definition batch :: "parse_flags \<Rightarrow> Config \<Rightarrow> benchset \<Rightarrow> string list \<Rightarrow> BatchPoints" where
  "batch fl cfg benchset ks =
    (let bp = \<lparr>bp_Database = Database cfg,
               bp_Tags = [''goversion'' \<mapsto> GoVersion cfg, ''hwid'' \<mapsto> HardwareID cfg],
               bp_Time = Timestamp cfg,
               bp_Precision = ''s'',
               bp_Points = []\<rparr>
     in bp\<lparr>bp_Points := range_benchset fl cfg benchset ks (bp_Points bp)\<rparr>)"

text \<open>
  \<^verbatim>\<open>func Run(r io.Reader, cl *client.Client, cfg Config) error\<close> (grade.go, lines 66
  to 104). The reader is the \<open>reader\<close> of the world, \<open>ks\<close> is the order in which this
  execution ranges over the map. The result is the returned error (\<open>None\<close> for nil) and
  the world afterwards.
\<close>

definition Run :: "parse_flags \<Rightarrow> parser \<Rightarrow> writer \<Rightarrow> string list \<Rightarrow> Config \<Rightarrow> world
    \<Rightarrow> error option \<times> world" where
  "Run fl ParseMultipleBenchmarks Write ks cfg w =
    (case validate cfg of
       Some err \<Rightarrow> (Some err, w)
     | None \<Rightarrow>
        (case ParseMultipleBenchmarks (reader w) of
           ((benchset, Some err), rest) \<Rightarrow> (Some err, w\<lparr>reader := rest\<rparr>)
         | ((benchset, None), rest) \<Rightarrow>
             (let bp = batch fl cfg benchset ks
              in (Write bp, w\<lparr>reader := rest, written := written w @ [bp]\<rparr>))))"

section \<open>Notions used to state the properties\<close>

text \<open>
  The five checks of the validator as the specification lists them: a field, when it is
  violated, and the message that names it.
\<close>

datatype cfg_field = FDatabase | FGoVersion | FTimestamp | FRevision | FHardwareID

fun invalid :: "Config \<Rightarrow> cfg_field \<Rightarrow> bool" where
  "invalid cfg FDatabase = (Database cfg = [])"
| "invalid cfg FGoVersion = (GoVersion cfg = [])"
| "invalid cfg FTimestamp = (sint (Unix (Timestamp cfg)) \<le> 0)"
| "invalid cfg FRevision = (Revision cfg = [])"
| "invalid cfg FHardwareID = (HardwareID cfg = [])"

fun message :: "cfg_field \<Rightarrow> string" where
  "message FDatabase = ''Database cannot be empty''"
| "message FGoVersion = ''Go version cannot be empty''"
| "message FTimestamp = ''Timestamp must be greater than zero''"
| "message FRevision = ''Revision cannot be empty''"
| "message FHardwareID = ''Hardware ID cannot be empty''"

definition check_order :: "cfg_field list" where
  "check_order = [FDatabase, FGoVersion, FTimestamp, FRevision, FHardwareID]"

definition violations :: "Config \<Rightarrow> string list" where
  "violations cfg = map message (filter (invalid cfg) check_order)"

text \<open>The lines of a text: the pieces between its newline characters.\<close>

fun split_lines :: "string \<Rightarrow> string list" where
  "split_lines [] = [[]]"
| "split_lines (c # cs) =
     (if c = CHR ''\<newline>'' then [] # split_lines cs
      else (case split_lines cs of [] \<Rightarrow> [[c]] | l # ls \<Rightarrow> (c # l) # ls))"

text \<open>What a returned error reports: nothing for nil, else the lines of its text.\<close>

fun reported :: "error option \<Rightarrow> string list" where
  "reported None = []"
| "reported (Some (errorString e)) = split_lines e"

text \<open>The points one package contributes, and the points of a list that carry a given \<open>pkg\<close> tag.\<close>

definition points_of :: "parse_flags \<Rightarrow> Config \<Rightarrow> benchset \<Rightarrow> string \<Rightarrow> Point list" where
  "points_of fl cfg benchset pkg =
     (case benchset pkg of None \<Rightarrow> [] | Some bs \<Rightarrow> map (mkPoint fl cfg pkg) bs)"

definition pkg_points :: "string \<Rightarrow> Point list \<Rightarrow> Point list" where
  "pkg_points pkg pts = filter (\<lambda>p. Tags p ''pkg'' = Some pkg) pts"

definition pkg_tags :: "Point list \<Rightarrow> string option list" where
  "pkg_tags pts = map (\<lambda>p. Tags p ''pkg'') pts"

text \<open>The number of benchmark records in a map, all packages together.\<close>

definition total_records :: "benchset \<Rightarrow> nat" where
  "total_records benchset = (\<Sum>pkg \<in> dom benchset. length (the (benchset pkg)))"

text \<open>
  The nanoseconds from the Unix epoch to a time, as a mathematical integer; positive
  exactly for the times after the epoch when \<open>nsec\<close> is within a second.
\<close>

definition since_epoch_ns :: "Time \<Rightarrow> int" where
  "since_epoch_ns t = sint (Unix t) * 1000000000 + sint (nsec t)"

subsection \<open>Concrete inputs\<close>

definition ex_flags :: parse_flags where
  "ex_flags = \<lparr>parse_NsPerOp = 1, parse_MBPerS = 2, parse_AllocedBytesPerOp = 4, parse_AllocsPerOp = 8\<rparr>"

definition ex_time :: Time where
  "ex_time = \<lparr>sec = unixToInternal + 1500000000, nsec = 0\<rparr>"

definition ex_cfg :: Config where
  "ex_cfg = \<lparr>Database = ''benchmarks'', GoVersion = ''go1.7'', Timestamp = ex_time,
             Revision = ''abc123'', HardwareID = ''laptop''\<rparr>"

definition ex_bench0 :: Benchmark where
  "ex_bench0 = \<lparr>Name = ''Foo'', NumCPU = 4, N = 100000, NsPerOp = 0, MBPerS = 0,
                AllocedBytesPerOp = 0, AllocsPerOp = 0, Measured = 0\<rparr>"

definition ex_bench15 :: Benchmark where
  "ex_bench15 = \<lparr>Name = ''Bar'', NumCPU = 1, N = 2000, NsPerOp = 123, MBPerS = 456,
                 AllocedBytesPerOp = 18446744073709551615, AllocsPerOp = 7, Measured = 15\<rparr>"

definition ex_set :: benchset where
  "ex_set = [''a'' \<mapsto> [ex_bench0], ''b'' \<mapsto> [ex_bench15]]"

definition ex_parser :: parser where
  "ex_parser text = ((ex_set, None), [])"

definition ex_failing_parser :: parser where
  "ex_failing_parser text = ((ex_set, Some (errorString ''bad line'')), [])"

definition ex_writer :: writer where
  "ex_writer bp = None"

definition ex_failing_writer :: writer where
  "ex_failing_writer bp = Some (errorString ''connection refused'')"

definition ex_world :: world where
  "ex_world = \<lparr>reader = ''report'', written = []\<rparr>"

definition ex_cfg_nodb :: Config where
  "ex_cfg_nodb = ex_cfg\<lparr>Database := []\<rparr>"

definition ex_cfg_zero :: Config where
  "ex_cfg_zero = \<lparr>Database = [], GoVersion = [], Timestamp = zeroTime, Revision = [], HardwareID = []\<rparr>"

definition ex_cfg_year1 :: Config where
  "ex_cfg_year1 = ex_cfg\<lparr>Timestamp := zeroTime\<rparr>"

text \<open>Half a second after the Unix epoch.\<close>

definition ex_half_second :: Time where
  "ex_half_second = \<lparr>sec = unixToInternal, nsec = 500000000\<rparr>"

definition ex_cfg_half :: Config where
  "ex_cfg_half = ex_cfg\<lparr>Timestamp := ex_half_second\<rparr>"

section \<open>The fields of a point\<close>

lemma makeFields_revision: "makeFields fl b rv ''revision'' = Some (FString rv)"
  by (simp add: makeFields_def Let_def)

lemma makeFields_n: "makeFields fl b rv ''n'' = Some (FInt (N b))"
  by (simp add: makeFields_def Let_def)

lemma makeFields_ns_per_op:
  "makeFields fl b rv ''ns_per_op'' =
     (if Measured b AND parse_NsPerOp fl \<noteq> 0 then Some (FFloat64 (NsPerOp b)) else None)"
  by (simp add: makeFields_def Let_def)

lemma makeFields_mb_per_s:
  "makeFields fl b rv ''mb_per_s'' =
     (if Measured b AND parse_MBPerS fl \<noteq> 0 then Some (FFloat64 (MBPerS b)) else None)"
  by (simp add: makeFields_def Let_def)

lemma makeFields_alloced_bytes_per_op:
  "makeFields fl b rv ''alloced_bytes_per_op'' =
     (if Measured b AND parse_AllocedBytesPerOp fl \<noteq> 0
      then Some (FInt64 (int64 (AllocedBytesPerOp b))) else None)"
  by (simp add: makeFields_def Let_def)

lemma makeFields_allocs_per_op:
  "makeFields fl b rv ''allocs_per_op'' =
     (if Measured b AND parse_AllocsPerOp fl \<noteq> 0
      then Some (FInt64 (int64 (AllocsPerOp b))) else None)"
  by (simp add: makeFields_def Let_def)

lemma dom_makeFields:
  "dom (makeFields fl b rv) =
     {''revision'', ''n''}
     \<union> (if Measured b AND parse_NsPerOp fl \<noteq> 0 then {''ns_per_op''} else {})
     \<union> (if Measured b AND parse_MBPerS fl \<noteq> 0 then {''mb_per_s''} else {})
     \<union> (if Measured b AND parse_AllocedBytesPerOp fl \<noteq> 0 then {''alloced_bytes_per_op''} else {})
     \<union> (if Measured b AND parse_AllocsPerOp fl \<noteq> 0 then {''allocs_per_op''} else {})"
  by (auto simp: makeFields_def Let_def)

lemma dom_makeFields_none:
  assumes "Measured b = 0"
  shows "dom (makeFields fl b rv) = {''revision'', ''n''}"
  using assms by (simp add: dom_makeFields)

lemma dom_makeFields_all:
  assumes "Measured b AND parse_NsPerOp fl \<noteq> 0" "Measured b AND parse_MBPerS fl \<noteq> 0"
    "Measured b AND parse_AllocedBytesPerOp fl \<noteq> 0" "Measured b AND parse_AllocsPerOp fl \<noteq> 0"
  shows "dom (makeFields fl b rv) =
    {''revision'', ''n'', ''ns_per_op'', ''mb_per_s'', ''alloced_bytes_per_op'', ''allocs_per_op''}"
  using assms by (simp add: dom_makeFields insert_commute)

lemma dom_makeFields_subset:
  "dom (makeFields fl b rv) \<subseteq>
     {''revision'', ''n'', ''ns_per_op'', ''mb_per_s'', ''alloced_bytes_per_op'', ''allocs_per_op''}"
  by (auto simp: makeFields_def Let_def split: if_splits)

lemma card_two_names: "card {''revision'', ''n''} = 2"
  by simp

lemma card_six_names:
  "card {''revision'', ''n'', ''ns_per_op'', ''mb_per_s'', ''alloced_bytes_per_op'', ''allocs_per_op''} = 6"
  by simp

text \<open>
  Claim C1. The field map of \<open>makeFields\<close> always holds \<open>revision\<close> (the tag given) and
  \<open>n\<close> (the iteration count); it holds \<open>ns_per_op\<close>, \<open>mb_per_s\<close>,
  \<open>alloced_bytes_per_op\<close>, \<open>allocs_per_op\<close> exactly when the record's mask has the
  corresponding flag, and no other key. A mask of 0 gives exactly the two fields
  \<open>revision\<close> and \<open>n\<close>; a mask with all four flags gives exactly six fields.
\<close>

theorem makeFields_field_set:
  "makeFields fl b rv ''revision'' = Some (FString rv) \<and>
   makeFields fl b rv ''n'' = Some (FInt (N b)) \<and>
   (''ns_per_op'' \<in> dom (makeFields fl b rv) \<longleftrightarrow> Measured b AND parse_NsPerOp fl \<noteq> 0) \<and>
   (''mb_per_s'' \<in> dom (makeFields fl b rv) \<longleftrightarrow> Measured b AND parse_MBPerS fl \<noteq> 0) \<and>
   (''alloced_bytes_per_op'' \<in> dom (makeFields fl b rv)
      \<longleftrightarrow> Measured b AND parse_AllocedBytesPerOp fl \<noteq> 0) \<and>
   (''allocs_per_op'' \<in> dom (makeFields fl b rv) \<longleftrightarrow> Measured b AND parse_AllocsPerOp fl \<noteq> 0) \<and>
   dom (makeFields fl b rv) \<subseteq>
     {''revision'', ''n'', ''ns_per_op'', ''mb_per_s'', ''alloced_bytes_per_op'', ''allocs_per_op''} \<and>
   (Measured b = 0 \<longrightarrow>
      dom (makeFields fl b rv) = {''revision'', ''n''} \<and> card (dom (makeFields fl b rv)) = 2) \<and>
   (Measured b AND parse_NsPerOp fl \<noteq> 0 \<and> Measured b AND parse_MBPerS fl \<noteq> 0 \<and>
    Measured b AND parse_AllocedBytesPerOp fl \<noteq> 0 \<and> Measured b AND parse_AllocsPerOp fl \<noteq> 0 \<longrightarrow>
      dom (makeFields fl b rv) =
        {''revision'', ''n'', ''ns_per_op'', ''mb_per_s'', ''alloced_bytes_per_op'', ''allocs_per_op''} \<and>
      card (dom (makeFields fl b rv)) = 6)"
proof (intro conjI impI)
  show "makeFields fl b rv ''revision'' = Some (FString rv)" by (rule makeFields_revision)
  show "makeFields fl b rv ''n'' = Some (FInt (N b))" by (rule makeFields_n)
  show "''ns_per_op'' \<in> dom (makeFields fl b rv) \<longleftrightarrow> Measured b AND parse_NsPerOp fl \<noteq> 0"
    by (simp add: domIff makeFields_ns_per_op)
  show "''mb_per_s'' \<in> dom (makeFields fl b rv) \<longleftrightarrow> Measured b AND parse_MBPerS fl \<noteq> 0"
    by (simp add: domIff makeFields_mb_per_s)
  show "''alloced_bytes_per_op'' \<in> dom (makeFields fl b rv)
      \<longleftrightarrow> Measured b AND parse_AllocedBytesPerOp fl \<noteq> 0"
    by (simp add: domIff makeFields_alloced_bytes_per_op)
  show "''allocs_per_op'' \<in> dom (makeFields fl b rv) \<longleftrightarrow> Measured b AND parse_AllocsPerOp fl \<noteq> 0"
    by (simp add: domIff makeFields_allocs_per_op)
  show "dom (makeFields fl b rv) \<subseteq>
     {''revision'', ''n'', ''ns_per_op'', ''mb_per_s'', ''alloced_bytes_per_op'', ''allocs_per_op''}"
    by (rule dom_makeFields_subset)
next
  assume "Measured b = 0"
  then show "dom (makeFields fl b rv) = {''revision'', ''n''}" by (rule dom_makeFields_none)
  then show "card (dom (makeFields fl b rv)) = 2" by (simp only: card_two_names)
next
  assume a: "Measured b AND parse_NsPerOp fl \<noteq> 0 \<and> Measured b AND parse_MBPerS fl \<noteq> 0 \<and>
    Measured b AND parse_AllocedBytesPerOp fl \<noteq> 0 \<and> Measured b AND parse_AllocsPerOp fl \<noteq> 0"
  then show d: "dom (makeFields fl b rv) =
        {''revision'', ''n'', ''ns_per_op'', ''mb_per_s'', ''alloced_bytes_per_op'', ''allocs_per_op''}"
    by (intro dom_makeFields_all) simp_all
  show "card (dom (makeFields fl b rv)) = 6" by (simp only: d card_six_names)
qed

theorem makeFields_field_set_witness:
  "Measured ex_bench0 = 0 \<and>
   dom (makeFields ex_flags ex_bench0 ''abc123'') = {''revision'', ''n''} \<and>
   card (dom (makeFields ex_flags ex_bench0 ''abc123'')) = 2 \<and>
   Measured ex_bench15 AND parse_NsPerOp ex_flags \<noteq> 0 \<and>
   Measured ex_bench15 AND parse_MBPerS ex_flags \<noteq> 0 \<and>
   Measured ex_bench15 AND parse_AllocedBytesPerOp ex_flags \<noteq> 0 \<and>
   Measured ex_bench15 AND parse_AllocsPerOp ex_flags \<noteq> 0 \<and>
   card (dom (makeFields ex_flags ex_bench15 ''abc123'')) = 6"
proof -
  have m0: "Measured ex_bench0 = 0" by (simp add: ex_bench0_def)
  have m15: "Measured ex_bench15 AND parse_NsPerOp ex_flags \<noteq> 0 \<and>
    Measured ex_bench15 AND parse_MBPerS ex_flags \<noteq> 0 \<and>
    Measured ex_bench15 AND parse_AllocedBytesPerOp ex_flags \<noteq> 0 \<and>
    Measured ex_bench15 AND parse_AllocsPerOp ex_flags \<noteq> 0"
    by (simp add: ex_bench15_def ex_flags_def)
  note t0 = makeFields_field_set [of ex_flags ex_bench0 "''abc123''"]
  note t15 = makeFields_field_set [of ex_flags ex_bench15 "''abc123''"]
  from t0 m0 have r0: "dom (makeFields ex_flags ex_bench0 ''abc123'') = {''revision'', ''n''} \<and>
    card (dom (makeFields ex_flags ex_bench0 ''abc123'')) = 2"
    by simp
  from t15 m15 have r15: "card (dom (makeFields ex_flags ex_bench15 ''abc123'')) = 6"
    by simp
  show ?thesis
    using m0 m15 r0 r15 by simp
qed

lemma wrap_shift:
  fixes x :: int
  assumes "0 \<le> x" "x < 18446744073709551616"
  shows "(x + 9223372036854775808) mod 18446744073709551616 - 9223372036854775808
         = (if x < 9223372036854775808 then x else x - 18446744073709551616)"
proof (cases "x < 9223372036854775808")
  case True
  then have "(x + 9223372036854775808) mod 18446744073709551616 = x + 9223372036854775808"
    using assms by (intro mod_pos_pos_trivial) simp_all
  with True show ?thesis by simp
next
  case False
  have "x + 9223372036854775808 = x - 9223372036854775808 + 18446744073709551616"
    by simp
  then have "(x + 9223372036854775808) mod 18446744073709551616
        = (x - 9223372036854775808 + 18446744073709551616) mod 18446744073709551616"
    by (rule arg_cong)
  also have "\<dots> = (x - 9223372036854775808) mod 18446744073709551616"
    by (rule mod_add_self2)
  also have "\<dots> = x - 9223372036854775808"
    using False assms by (intro mod_pos_pos_trivial) simp_all
  finally show ?thesis using False by simp
qed

lemma int64_value:
  "int64 v = (if uint v < 2 ^ 63 then uint v else uint v - 2 ^ 64)"
proof -
  have b: "0 \<le> uint v" "uint v < 18446744073709551616"
    using uint_lt2p [of v] by simp_all
  have "sint v = take_bit 64 (uint v + 2 ^ 63) - 2 ^ 63"
    by (simp add: sint_uint signed_take_bit_eq_take_bit_shift)
  also have "\<dots> = (uint v + 9223372036854775808) mod 18446744073709551616 - 9223372036854775808"
    by (simp add: take_bit_eq_mod)
  finally show ?thesis using wrap_shift [OF b] by (simp add: int64_def)
qed

text \<open>
  Claim C10. When the flag of \<open>alloced_bytes_per_op\<close> (of \<open>allocs_per_op\<close>) is in
  the mask, \<open>makeFields\<close> stores the unsigned 64-bit counter converted to int64: the
  stored number is the counter itself when the counter is below \<open>2 ^ 63\<close>, and the
  counter minus \<open>2 ^ 64\<close>, a negative number, otherwise.
\<close>

theorem makeFields_int64_cast:
  "(Measured b AND parse_AllocedBytesPerOp fl \<noteq> 0 \<longrightarrow>
      makeFields fl b rv ''alloced_bytes_per_op'' =
        Some (FInt64 (if uint (AllocedBytesPerOp b) < 2 ^ 63 then uint (AllocedBytesPerOp b)
                      else uint (AllocedBytesPerOp b) - 2 ^ 64))) \<and>
   (Measured b AND parse_AllocsPerOp fl \<noteq> 0 \<longrightarrow>
      makeFields fl b rv ''allocs_per_op'' =
        Some (FInt64 (if uint (AllocsPerOp b) < 2 ^ 63 then uint (AllocsPerOp b)
                      else uint (AllocsPerOp b) - 2 ^ 64)))"
  by (simp only: makeFields_alloced_bytes_per_op makeFields_allocs_per_op int64_value) simp

theorem makeFields_int64_cast_witness:
  "Measured ex_bench15 AND parse_AllocedBytesPerOp ex_flags \<noteq> 0 \<and>
   Measured ex_bench15 AND parse_AllocsPerOp ex_flags \<noteq> 0 \<and>
   uint (AllocedBytesPerOp ex_bench15) = 2 ^ 64 - 1 \<and>
   makeFields ex_flags ex_bench15 ''abc123'' ''alloced_bytes_per_op'' = Some (FInt64 (- 1)) \<and>
   makeFields ex_flags ex_bench15 ''abc123'' ''allocs_per_op'' = Some (FInt64 7)"
proof -
  have m: "Measured ex_bench15 AND parse_AllocedBytesPerOp ex_flags \<noteq> 0"
    "Measured ex_bench15 AND parse_AllocsPerOp ex_flags \<noteq> 0"
    by (simp_all add: ex_bench15_def ex_flags_def)
  have u: "uint (AllocedBytesPerOp ex_bench15) = 18446744073709551615"
    "uint (AllocsPerOp ex_bench15) = 7"
    by (simp_all add: ex_bench15_def)
  show ?thesis
    using m makeFields_int64_cast [of ex_bench15 ex_flags "''abc123''"]
    by (simp add: u)
qed

section \<open>The validator\<close>

lemma validate_eq:
  "validate cfg =
     (if violations cfg = [] then None
      else Some (errorString (Join (violations cfg) ''\<newline>'')))"
  by (simp add: validate_def violations_def check_order_def Let_def)

lemma split_lines_line:
  "CHR ''\<newline>'' \<notin> set x \<Longrightarrow> split_lines (x @ CHR ''\<newline>'' # rest) = x # split_lines rest"
  by (induction x) auto

lemma split_lines_single:
  "CHR ''\<newline>'' \<notin> set x \<Longrightarrow> split_lines x = [x]"
  by (induction x) auto

lemma split_lines_Join:
  "xs \<noteq> [] \<Longrightarrow> \<forall>x \<in> set xs. CHR ''\<newline>'' \<notin> set x \<Longrightarrow>
     split_lines (Join xs ''\<newline>'') = xs"
proof (induction xs "''\<newline>''" rule: Join.induct)
  case 1
  then show ?case by simp
next
  case (2 x)
  then show ?case by (simp add: split_lines_single)
next
  case (3 x y ys)
  then show ?case by (simp add: split_lines_line)
qed

lemma message_no_newline: "CHR ''\<newline>'' \<notin> set (message f)"
  by (cases f) simp_all

lemma violations_no_newline: "\<forall>x \<in> set (violations cfg). CHR ''\<newline>'' \<notin> set x"
  by (auto simp: violations_def message_no_newline)

lemma reported_validate: "reported (validate cfg) = violations cfg"
  by (simp add: validate_eq split_lines_Join violations_no_newline)

lemma violations_empty:
  "violations cfg = [] \<longleftrightarrow> (\<forall>f. \<not> invalid cfg f)"
proof
  assume "violations cfg = []"
  then have "\<forall>f \<in> set check_order. \<not> invalid cfg f"
    by (simp add: violations_def filter_empty_conv)
  moreover have "f \<in> set check_order" for f
    by (cases f) (simp_all add: check_order_def)
  ultimately show "\<forall>f. \<not> invalid cfg f" by blast
next
  assume "\<forall>f. \<not> invalid cfg f"
  then show "violations cfg = []" by (simp add: violations_def)
qed

lemma violations_single:
  assumes "invalid cfg f" "\<forall>g. g \<noteq> f \<longrightarrow> \<not> invalid cfg g"
  shows "violations cfg = [message f]"
proof -
  have "filter (invalid cfg) check_order = filter (\<lambda>g. g = f) check_order"
    using assms by (intro filter_cong) auto
  also have "\<dots> = [f]"
    by (cases f) (simp_all add: check_order_def)
  finally show ?thesis by (simp add: violations_def)
qed

text \<open>
  Claim C2. \<open>validate\<close> returns nil exactly when none of the five fields is violated.
  Otherwise it returns one error whose text is the messages of all violated fields,
  joined by newlines; read line by line, the error lists every violated field, in the
  order database, Go version, timestamp, revision, hardware id. When exactly one field
  is violated the error is the single message of that field.
\<close>

theorem validate_aggregates:
  "(validate cfg = None \<longleftrightarrow> (\<forall>f. \<not> invalid cfg f)) \<and>
   (validate cfg \<noteq> None \<longrightarrow>
      validate cfg = Some (errorString (Join (violations cfg) ''\<newline>''))) \<and>
   reported (validate cfg) = map message (filter (invalid cfg)
      [FDatabase, FGoVersion, FTimestamp, FRevision, FHardwareID]) \<and>
   (\<forall>f. invalid cfg f \<and> (\<forall>g. g \<noteq> f \<longrightarrow> \<not> invalid cfg g) \<longrightarrow>
      validate cfg = Some (errorString (message f)) \<and> reported (validate cfg) = [message f])"
proof (intro conjI allI impI)
  show "validate cfg = None \<longleftrightarrow> (\<forall>f. \<not> invalid cfg f)"
    by (simp add: validate_eq violations_empty)
  show "validate cfg = Some (errorString (Join (violations cfg) ''\<newline>''))"
    if "validate cfg \<noteq> None"
    using that by (simp add: validate_eq split: if_splits)
  show "reported (validate cfg) = map message (filter (invalid cfg)
      [FDatabase, FGoVersion, FTimestamp, FRevision, FHardwareID])"
    by (simp only: reported_validate violations_def check_order_def)
next
  fix f assume a: "invalid cfg f \<and> (\<forall>g. g \<noteq> f \<longrightarrow> \<not> invalid cfg g)"
  then have v: "violations cfg = [message f]" by (intro violations_single) simp_all
  show "validate cfg = Some (errorString (message f))"
    by (simp add: validate_eq v)
  show "reported (validate cfg) = [message f]"
    by (simp only: reported_validate v)
qed

lemma Unix_zeroTime: "sint (Unix zeroTime) = - 62135596800"
  by (simp add: Unix_def internalToUnix_def zeroTime_def unixToInternal_def)

lemma Unix_ex_time: "sint (Unix ex_time) = 1500000000"
  by (simp add: Unix_def internalToUnix_def ex_time_def)

lemma invalid_ex_cfg: "\<not> invalid ex_cfg f"
  by (cases f) (simp_all add: ex_cfg_def Unix_ex_time)

lemma validate_ex_cfg: "validate ex_cfg = None"
  by (simp add: validate_eq violations_empty invalid_ex_cfg)

lemma invalid_ex_cfg_nodb: "invalid ex_cfg_nodb f \<longleftrightarrow> f = FDatabase"
  by (cases f) (simp_all add: ex_cfg_nodb_def ex_cfg_def Unix_ex_time)

lemma invalid_ex_cfg_zero: "invalid ex_cfg_zero f"
  by (cases f) (simp_all add: ex_cfg_zero_def Unix_zeroTime)

lemma invalid_ex_cfg_year1: "invalid ex_cfg_year1 f \<longleftrightarrow> f = FTimestamp"
  by (cases f) (simp_all add: ex_cfg_year1_def ex_cfg_def Unix_zeroTime)

theorem validate_aggregates_witness:
  "validate ex_cfg = None \<and>
   validate ex_cfg_nodb = Some (errorString ''Database cannot be empty'') \<and>
   reported (validate ex_cfg_nodb) = [''Database cannot be empty''] \<and>
   validate ex_cfg_zero \<noteq> None \<and>
   reported (validate ex_cfg_zero) =
     [''Database cannot be empty'', ''Go version cannot be empty'',
      ''Timestamp must be greater than zero'', ''Revision cannot be empty'',
      ''Hardware ID cannot be empty'']"
proof -
  have one: "invalid ex_cfg_nodb FDatabase \<and> (\<forall>g. g \<noteq> FDatabase \<longrightarrow> \<not> invalid ex_cfg_nodb g)"
    by (simp add: invalid_ex_cfg_nodb del: invalid.simps)
  have none: "\<forall>f. \<not> invalid ex_cfg f"
    by (simp add: invalid_ex_cfg del: invalid.simps)
  have all: "\<not> (\<forall>f. \<not> invalid ex_cfg_zero f)"
    by (simp add: invalid_ex_cfg_zero del: invalid.simps)
  show ?thesis
    using one none all validate_aggregates [of ex_cfg] validate_aggregates [of ex_cfg_nodb]
      validate_aggregates [of ex_cfg_zero]
    by (simp add: invalid_ex_cfg_zero del: invalid.simps)
qed

lemma Unix_ex_half_second: "sint (Unix ex_half_second) = 0"
  by (simp add: Unix_def internalToUnix_def ex_half_second_def)

lemma nsec_ex_half_second: "sint (nsec ex_half_second) = 500000000"
  by (simp add: ex_half_second_def)

lemma timestamp_reported:
  "''Timestamp must be greater than zero'' \<in> set (reported (validate cfg))
      \<longleftrightarrow> sint (Unix (Timestamp cfg)) \<le> 0"
  by (auto simp: reported_validate violations_def check_order_def)

lemma whole_seconds:
  fixes s n :: int
  assumes "0 \<le> n" "n < 1000000000"
  shows "s * 1000000000 + n < 1000000000 \<longleftrightarrow> s \<le> 0"
  using assms by auto

text \<open>
  Half a second after the Unix epoch is a time strictly after the epoch; its \<open>Unix()\<close>
  is 0, and \<open>validate\<close> reports the timestamp.
\<close>

theorem validate_timestamp_counterexample:
  "0 < since_epoch_ns (Timestamp ex_cfg_half) \<and>
   sint (Unix (Timestamp ex_cfg_half)) = 0 \<and>
   ''Timestamp must be greater than zero'' \<in> set (reported (validate ex_cfg_half))"
  by (simp add: timestamp_reported since_epoch_ns_def ex_cfg_half_def Unix_ex_half_second
      nsec_ex_half_second)

text \<open>
  Claim C9, amended. The error of \<open>validate\<close> has the line
  \<open>Timestamp must be greater than zero\<close> exactly when \<open>Unix()\<close> of the timestamp, a count
  of whole seconds, is at most 0; a rejected timestamp makes \<open>validate\<close> fail. So the
  check rejects the epoch, every earlier time (Go's zero time, \<open>62135596800\<close> seconds
  before the epoch, among them) and every time less than one second after the epoch,
  and accepts every time that is at least one whole second after the epoch.
\<close>

theorem validate_timestamp:
  "(''Timestamp must be greater than zero'' \<in> set (reported (validate cfg))
      \<longleftrightarrow> sint (Unix (Timestamp cfg)) \<le> 0) \<and>
   (sint (Unix (Timestamp cfg)) \<le> 0 \<longrightarrow> validate cfg \<noteq> None) \<and>
   (Timestamp cfg = zeroTime \<longrightarrow> sint (Unix (Timestamp cfg)) = - 62135596800) \<and>
   (0 \<le> sint (nsec (Timestamp cfg)) \<and> sint (nsec (Timestamp cfg)) < 1000000000 \<longrightarrow>
      (''Timestamp must be greater than zero'' \<in> set (reported (validate cfg))
         \<longleftrightarrow> since_epoch_ns (Timestamp cfg) < 1000000000))"
proof (intro conjI impI)
  show "''Timestamp must be greater than zero'' \<in> set (reported (validate cfg))
      \<longleftrightarrow> sint (Unix (Timestamp cfg)) \<le> 0"
    by (rule timestamp_reported)
  show "validate cfg \<noteq> None" if "sint (Unix (Timestamp cfg)) \<le> 0"
  proof -
    from that have "invalid cfg FTimestamp" by simp
    then have "\<not> (\<forall>f. \<not> invalid cfg f)" by blast
    then show ?thesis by (simp add: validate_eq violations_empty)
  qed
  show "sint (Unix (Timestamp cfg)) = - 62135596800" if "Timestamp cfg = zeroTime"
    using that by (simp add: Unix_zeroTime)
  show "''Timestamp must be greater than zero'' \<in> set (reported (validate cfg))
         \<longleftrightarrow> since_epoch_ns (Timestamp cfg) < 1000000000"
    if "0 \<le> sint (nsec (Timestamp cfg)) \<and> sint (nsec (Timestamp cfg)) < 1000000000"
    using that whole_seconds [of "sint (nsec (Timestamp cfg))" "sint (Unix (Timestamp cfg))"]
    by (simp add: timestamp_reported since_epoch_ns_def)
qed

theorem validate_timestamp_witness:
  "Timestamp ex_cfg_year1 = zeroTime \<and>
   sint (Unix (Timestamp ex_cfg_year1)) \<le> 0 \<and>
   validate ex_cfg_year1 \<noteq> None \<and>
   ''Timestamp must be greater than zero'' \<in> set (reported (validate ex_cfg_year1)) \<and>
   0 \<le> sint (nsec (Timestamp ex_cfg)) \<and> sint (nsec (Timestamp ex_cfg)) < 1000000000 \<and>
   \<not> since_epoch_ns (Timestamp ex_cfg) < 1000000000 \<and>
   ''Timestamp must be greater than zero'' \<notin> set (reported (validate ex_cfg))"
proof -
  have z: "Timestamp ex_cfg_year1 = zeroTime"
    by (simp add: ex_cfg_year1_def)
  have p: "sint (Unix (Timestamp ex_cfg)) = 1500000000" "sint (nsec (Timestamp ex_cfg)) = 0"
    by (simp_all add: ex_cfg_def Unix_ex_time) (simp add: ex_time_def)
  show ?thesis
    using z p validate_timestamp [of ex_cfg_year1] validate_timestamp [of ex_cfg]
    by (simp add: since_epoch_ns_def)
qed

section \<open>The batch that Run submits\<close>

lemma range_bs_eq: "range_bs fl cfg pkg bs pts = pts @ map (mkPoint fl cfg pkg) bs"
  by (induction bs arbitrary: pts) simp_all

lemma range_benchset_eq:
  "range_benchset fl cfg benchset ks pts = pts @ concat (map (points_of fl cfg benchset) ks)"
  by (induction ks arbitrary: pts) (simp_all add: points_of_def range_bs_eq split: option.split)

lemma batch_eq:
  "batch fl cfg benchset ks =
    \<lparr>bp_Database = Database cfg,
     bp_Tags = [''goversion'' \<mapsto> GoVersion cfg, ''hwid'' \<mapsto> HardwareID cfg],
     bp_Time = Timestamp cfg,
     bp_Precision = ''s'',
     bp_Points = concat (map (points_of fl cfg benchset) ks)\<rparr>"
  by (simp add: batch_def range_benchset_eq)

lemma Run_when_invalid:
  "validate cfg = Some err \<Longrightarrow> Run fl P W ks cfg w = (Some err, w)"
  by (simp add: Run_def)

lemma Run_parse_failed:
  "validate cfg = None \<Longrightarrow> P (reader w) = ((benchset, Some err), rest) \<Longrightarrow>
     Run fl P W ks cfg w = (Some err, w\<lparr>reader := rest\<rparr>)"
  by (simp add: Run_def)

lemma Run_parsed:
  "validate cfg = None \<Longrightarrow> P (reader w) = ((benchset, None), rest) \<Longrightarrow>
     Run fl P W ks cfg w =
       (W (batch fl cfg benchset ks),
        w\<lparr>reader := rest, written := written w @ [batch fl cfg benchset ks]\<rparr>)"
  by (simp add: Run_def Let_def)

lemma pkg_tag_mkPoint: "Tags (mkPoint fl cfg pkg b) ''pkg'' = Some pkg"
  by (simp add: mkPoint_def)

lemma pkg_points_points_of:
  "pkg_points pkg (points_of fl cfg benchset k) = (if k = pkg then points_of fl cfg benchset k else [])"
  by (auto simp: pkg_points_def points_of_def pkg_tag_mkPoint filter_empty_conv split: option.split)

lemma pkg_points_append: "pkg_points pkg (xs @ ys) = pkg_points pkg xs @ pkg_points pkg ys"
  by (simp add: pkg_points_def)

lemma pkg_points_concat_absent:
  "pkg \<notin> set ks \<Longrightarrow> pkg_points pkg (concat (map (points_of fl cfg benchset) ks)) = []"
proof (induction ks)
  case Nil
  show ?case by (simp add: pkg_points_def)
next
  case (Cons k ks)
  then have "k \<noteq> pkg" "pkg \<notin> set ks" by auto
  with Cons.IH show ?case
    by (simp add: pkg_points_append pkg_points_points_of)
qed

lemma pkg_points_concat:
  "distinct ks \<Longrightarrow> pkg \<in> set ks \<Longrightarrow>
     pkg_points pkg (concat (map (points_of fl cfg benchset) ks)) = points_of fl cfg benchset pkg"
proof (induction ks)
  case Nil
  then show ?case by simp
next
  case (Cons k ks)
  show ?case
  proof (cases "k = pkg")
    case True
    with Cons.prems have "pkg \<notin> set ks" by simp
    then show ?thesis
      using True by (simp add: pkg_points_append pkg_points_points_of pkg_points_concat_absent)
  next
    case False
    with Cons show ?thesis
      by (simp add: pkg_points_append pkg_points_points_of)
  qed
qed

lemma mset_concat_map:
  "mset (concat (map f ks)) = sum_mset (image_mset (\<lambda>k. mset (f k)) (mset ks))"
  by (induction ks) simp_all

lemma mset_points_order:
  assumes "distinct ks" "distinct ks'" "set ks = set ks'"
  shows "mset (concat (map f ks)) = mset (concat (map f ks'))"
proof -
  have "mset ks = mset ks'"
    using assms by (simp add: set_eq_iff_mset_eq_distinct)
  then show ?thesis
    by (simp only: mset_concat_map)
qed

lemma length_points_of:
  "length (points_of fl cfg benchset pkg) = (case benchset pkg of None \<Rightarrow> 0 | Some bs \<Rightarrow> length bs)"
  by (simp add: points_of_def split: option.split)

lemma length_points:
  assumes "range_order benchset ks"
  shows "length (concat (map (points_of fl cfg benchset) ks)) = total_records benchset"
proof -
  have "length (concat (map (points_of fl cfg benchset) ks))
        = sum_list (map (\<lambda>k. length (points_of fl cfg benchset k)) ks)"
    by (simp add: length_concat comp_def)
  also have "\<dots> = (\<Sum>k \<in> set ks. length (points_of fl cfg benchset k))"
    using assms by (simp add: range_order_def sum_list_distinct_conv_sum_set)
  also have "\<dots> = (\<Sum>k \<in> dom benchset. length (the (benchset k)))"
    using assms by (intro sum.cong) (auto simp: range_order_def length_points_of)
  finally show ?thesis by (simp add: total_records_def)
qed

lemma ex_set_a: "ex_set ''a'' = Some [ex_bench0]"
  by (simp add: ex_set_def)

lemma ex_set_b: "ex_set ''b'' = Some [ex_bench15]"
  by (simp add: ex_set_def)

lemma dom_ex_set: "dom ex_set = {''a'', ''b''}"
  by (auto simp: ex_set_def)

lemma range_order_ab: "range_order ex_set [''a'', ''b'']"
  by (simp add: range_order_def dom_ex_set)

lemma range_order_ba: "range_order ex_set [''b'', ''a'']"
  by (auto simp: range_order_def dom_ex_set)

lemma ex_points_ab:
  "bp_Points (batch ex_flags ex_cfg ex_set [''a'', ''b'']) =
     [mkPoint ex_flags ex_cfg ''a'' ex_bench0, mkPoint ex_flags ex_cfg ''b'' ex_bench15]"
  by (simp add: batch_eq points_of_def ex_set_a ex_set_b)

lemma ex_points_ba:
  "bp_Points (batch ex_flags ex_cfg ex_set [''b'', ''a'']) =
     [mkPoint ex_flags ex_cfg ''b'' ex_bench15, mkPoint ex_flags ex_cfg ''a'' ex_bench0]"
  by (simp add: batch_eq points_of_def ex_set_a ex_set_b)

lemma ex_parser_ok: "ex_parser (reader ex_world) = ((ex_set, None), [])"
  by (simp add: ex_parser_def)

lemma ex_parser_failed:
  "ex_failing_parser (reader ex_world) = ((ex_set, Some (errorString ''bad line'')), [])"
  by (simp add: ex_failing_parser_def)

lemma total_records_ex_set: "total_records ex_set = 2"
  by (simp add: total_records_def dom_ex_set ex_set_a ex_set_b)

text \<open>
  Two executions of \<open>Run\<close> on the same input, the first ranging over the packages
  \<open>a, b\<close> and the second over \<open>b, a\<close>, submit batches whose points come in different
  orders.
\<close>

theorem Run_order_counterexample:
  "range_order ex_set [''a'', ''b''] \<and> range_order ex_set [''b'', ''a''] \<and>
   pkg_tags (bp_Points (last (written (snd
      (Run ex_flags ex_parser ex_writer [''a'', ''b''] ex_cfg ex_world))))) = [Some ''a'', Some ''b''] \<and>
   pkg_tags (bp_Points (last (written (snd
      (Run ex_flags ex_parser ex_writer [''b'', ''a''] ex_cfg ex_world))))) = [Some ''b'', Some ''a''] \<and>
   written (snd (Run ex_flags ex_parser ex_writer [''a'', ''b''] ex_cfg ex_world))
     \<noteq> written (snd (Run ex_flags ex_parser ex_writer [''b'', ''a''] ex_cfg ex_world))"
proof -
  have ab: "pkg_tags (bp_Points (last (written (snd
      (Run ex_flags ex_parser ex_writer [''a'', ''b''] ex_cfg ex_world))))) = [Some ''a'', Some ''b'']"
    by (simp add: Run_parsed [where P = ex_parser and w = ex_world, OF validate_ex_cfg ex_parser_ok] ex_points_ab pkg_tags_def pkg_tag_mkPoint)
  have ba: "pkg_tags (bp_Points (last (written (snd
      (Run ex_flags ex_parser ex_writer [''b'', ''a''] ex_cfg ex_world))))) = [Some ''b'', Some ''a'']"
    by (simp add: Run_parsed [where P = ex_parser and w = ex_world, OF validate_ex_cfg ex_parser_ok] ex_points_ba pkg_tags_def pkg_tag_mkPoint)
  have "written (snd (Run ex_flags ex_parser ex_writer [''a'', ''b''] ex_cfg ex_world))
     \<noteq> written (snd (Run ex_flags ex_parser ex_writer [''b'', ''a''] ex_cfg ex_world))"
  proof
    assume "written (snd (Run ex_flags ex_parser ex_writer [''a'', ''b''] ex_cfg ex_world))
      = written (snd (Run ex_flags ex_parser ex_writer [''b'', ''a''] ex_cfg ex_world))"
    with ab have "pkg_tags (bp_Points (last (written (snd
      (Run ex_flags ex_parser ex_writer [''b'', ''a''] ex_cfg ex_world))))) = [Some ''a'', Some ''b'']"
      by simp
    with ba show False by simp
  qed
  with ab ba range_order_ab range_order_ba show ?thesis by simp
qed

text \<open>
  Claim C3, amended. When validation and parsing succeed, the points of the submitted
  batch are the point lists of the packages, concatenated in the order in which this
  execution ranges over the keys of the map. Any two such orders give the same points up
  to the order of the packages (the same multiset), and in both the points of one
  package are the package's records in the order of its slice.
\<close>

theorem Run_batch_order:
  assumes "validate cfg = None" and "P (reader w) = ((benchset, None), rest)"
    and "range_order benchset ks" and "range_order benchset ks'"
  shows "written (snd (Run fl P W ks cfg w)) = written w @ [batch fl cfg benchset ks] \<and>
    written (snd (Run fl P W ks' cfg w)) = written w @ [batch fl cfg benchset ks'] \<and>
    bp_Points (batch fl cfg benchset ks) = concat (map (points_of fl cfg benchset) ks) \<and>
    mset (bp_Points (batch fl cfg benchset ks)) = mset (bp_Points (batch fl cfg benchset ks')) \<and>
    (\<forall>pkg bs. benchset pkg = Some bs \<longrightarrow>
       pkg_points pkg (bp_Points (batch fl cfg benchset ks)) = map (mkPoint fl cfg pkg) bs \<and>
       pkg_points pkg (bp_Points (batch fl cfg benchset ks')) = map (mkPoint fl cfg pkg) bs)"
proof (intro conjI allI impI)
  show "written (snd (Run fl P W ks cfg w)) = written w @ [batch fl cfg benchset ks]"
    by (simp add: Run_parsed [where P = P and w = w, OF assms(1,2)])
  show "written (snd (Run fl P W ks' cfg w)) = written w @ [batch fl cfg benchset ks']"
    by (simp add: Run_parsed [where P = P and w = w, OF assms(1,2)])
  show "bp_Points (batch fl cfg benchset ks) = concat (map (points_of fl cfg benchset) ks)"
    by (simp add: batch_eq)
  show "mset (bp_Points (batch fl cfg benchset ks)) = mset (bp_Points (batch fl cfg benchset ks'))"
    using assms(3,4) by (simp add: batch_eq range_order_def mset_points_order)
next
  fix pkg bs assume b: "benchset pkg = Some bs"
  then have p: "points_of fl cfg benchset pkg = map (mkPoint fl cfg pkg) bs"
    by (simp add: points_of_def)
  from b assms(3) have "distinct ks" "pkg \<in> set ks" by (auto simp: range_order_def)
  then show "pkg_points pkg (bp_Points (batch fl cfg benchset ks)) = map (mkPoint fl cfg pkg) bs"
    by (simp add: batch_eq pkg_points_concat p)
  from b assms(4) have "distinct ks'" "pkg \<in> set ks'" by (auto simp: range_order_def)
  then show "pkg_points pkg (bp_Points (batch fl cfg benchset ks')) = map (mkPoint fl cfg pkg) bs"
    by (simp add: batch_eq pkg_points_concat p)
qed

theorem Run_batch_order_witness:
  "validate ex_cfg = None \<and> ex_parser (reader ex_world) = ((ex_set, None), []) \<and>
   range_order ex_set [''a'', ''b''] \<and> range_order ex_set [''b'', ''a''] \<and>
   ex_set ''b'' = Some [ex_bench15] \<and>
   mset (bp_Points (batch ex_flags ex_cfg ex_set [''a'', ''b'']))
     = mset (bp_Points (batch ex_flags ex_cfg ex_set [''b'', ''a''])) \<and>
   pkg_points ''b'' (bp_Points (batch ex_flags ex_cfg ex_set [''a'', ''b'']))
     = [mkPoint ex_flags ex_cfg ''b'' ex_bench15]"
proof -
  note t = Run_batch_order [where P = ex_parser and w = ex_world and fl = ex_flags and W = ex_writer,
      OF validate_ex_cfg ex_parser_ok range_order_ab range_order_ba]
  note m = t [THEN conjunct2, THEN conjunct2, THEN conjunct2, THEN conjunct1]
  note p = t [THEN conjunct2, THEN conjunct2, THEN conjunct2, THEN conjunct2,
      THEN spec, THEN spec, THEN mp, OF ex_set_b, THEN conjunct1]
  have q: "pkg_points ''b'' (bp_Points (batch ex_flags ex_cfg ex_set [''a'', ''b'']))
     = [mkPoint ex_flags ex_cfg ''b'' ex_bench15]"
    using p by simp
  show ?thesis
    by (intro conjI validate_ex_cfg ex_parser_ok range_order_ab range_order_ba ex_set_b m q)
qed

text \<open>
  Claim C4. When the configuration is valid and the parser returns an error, \<open>Run\<close>
  returns that error, whatever map the parser returned with it, and the list of batches
  handed to the client is unchanged: nothing is written.
\<close>

theorem Run_parse_error:
  assumes "validate cfg = None" and "P (reader w) = ((benchset, Some err), rest)"
  shows "Run fl P W ks cfg w = (Some err, w\<lparr>reader := rest\<rparr>) \<and>
    fst (Run fl P W ks cfg w) = Some err \<and>
    written (snd (Run fl P W ks cfg w)) = written w"
  by (simp add: Run_parse_failed [where P = P and w = w, OF assms])

theorem Run_parse_error_witness:
  "validate ex_cfg = None \<and>
   ex_failing_parser (reader ex_world) = ((ex_set, Some (errorString ''bad line'')), []) \<and>
   fst (Run ex_flags ex_failing_parser ex_writer [''a'', ''b''] ex_cfg ex_world)
     = Some (errorString ''bad line'') \<and>
   written (snd (Run ex_flags ex_failing_parser ex_writer [''a'', ''b''] ex_cfg ex_world)) = []"
proof -
  note t = Run_parse_error [where P = ex_failing_parser and w = ex_world and fl = ex_flags
      and W = ex_writer and ks = "[''a'', ''b'']", OF validate_ex_cfg ex_parser_failed]
  have w: "written ex_world = []" by (simp add: ex_world_def)
  show ?thesis
    using t validate_ex_cfg ex_parser_failed by (simp add: w)
qed

text \<open>
  Claim C5. When \<open>validate\<close> fails, \<open>Run\<close> returns its error, the text of all violations
  joined by newlines, and leaves the world as it found it: the reader has not been read
  and no batch has been handed to the client.
\<close>

theorem Run_invalid_config:
  "validate cfg \<noteq> None \<longrightarrow>
     Run fl P W ks cfg w = (validate cfg, w) \<and>
     fst (Run fl P W ks cfg w) = Some (errorString (Join (violations cfg) ''\<newline>'')) \<and>
     reader (snd (Run fl P W ks cfg w)) = reader w \<and>
     written (snd (Run fl P W ks cfg w)) = written w"
proof
  assume "validate cfg \<noteq> None"
  then obtain err where e: "validate cfg = Some err" by blast
  then have "err = errorString (Join (violations cfg) ''\<newline>'')"
    by (simp add: validate_eq split: if_splits)
  with e show "Run fl P W ks cfg w = (validate cfg, w) \<and>
     fst (Run fl P W ks cfg w) = Some (errorString (Join (violations cfg) ''\<newline>'')) \<and>
     reader (snd (Run fl P W ks cfg w)) = reader w \<and>
     written (snd (Run fl P W ks cfg w)) = written w"
    by (simp add: Run_when_invalid)
qed

lemma validate_ex_cfg_nodb: "validate ex_cfg_nodb = Some (errorString ''Database cannot be empty'')"
  using violations_single [of ex_cfg_nodb FDatabase]
  by (simp add: validate_eq invalid_ex_cfg_nodb del: invalid.simps)

theorem Run_invalid_config_witness:
  "validate ex_cfg_nodb \<noteq> None \<and>
   Run ex_flags ex_parser ex_writer [''a'', ''b''] ex_cfg_nodb ex_world
     = (Some (errorString ''Database cannot be empty''), ex_world)"
  using Run_invalid_config [of ex_cfg_nodb ex_flags ex_parser ex_writer "[''a'', ''b'']" ex_world]
  by (simp add: validate_ex_cfg_nodb)

lemma points_of_member:
  "p \<in> set (concat (map (points_of fl cfg benchset) ks)) \<Longrightarrow>
     \<exists>pkg bs b. benchset pkg = Some bs \<and> b \<in> set bs \<and> p = mkPoint fl cfg pkg b"
proof -
  assume "p \<in> set (concat (map (points_of fl cfg benchset) ks))"
  then obtain pkg where "p \<in> set (points_of fl cfg benchset pkg)" by auto
  then obtain bs where "benchset pkg = Some bs" "p \<in> set (map (mkPoint fl cfg pkg) bs)"
    by (cases "benchset pkg") (auto simp: points_of_def)
  then show ?thesis by auto
qed

lemma dom_Tags_mkPoint: "dom (Tags (mkPoint fl cfg pkg b)) = {''pkg'', ''ncpu'', ''name''}"
  by (auto simp: mkPoint_def)

text \<open>
  Claim C6. When validation and parsing succeed, the one batch \<open>Run\<close> submits has the
  timestamp and the database of the configuration, the precision \<open>s\<close>, and the tags
  \<open>goversion\<close> and \<open>hwid\<close> of the configuration and no other; every point in it has the
  measurement \<open>benchmarks\<close> and exactly the tags \<open>pkg\<close>, \<open>ncpu\<close> and \<open>name\<close>, which are
  the package, the decimal text of the CPU count and the name of one record of the map.
\<close>

theorem Run_batch_shape:
  assumes "validate cfg = None" and "P (reader w) = ((benchset, None), rest)"
  shows "written (snd (Run fl P W ks cfg w)) = written w @ [batch fl cfg benchset ks] \<and>
    bp_Time (batch fl cfg benchset ks) = Timestamp cfg \<and>
    bp_Precision (batch fl cfg benchset ks) = ''s'' \<and>
    bp_Database (batch fl cfg benchset ks) = Database cfg \<and>
    bp_Tags (batch fl cfg benchset ks) = [''goversion'' \<mapsto> GoVersion cfg, ''hwid'' \<mapsto> HardwareID cfg] \<and>
    dom (bp_Tags (batch fl cfg benchset ks)) = {''goversion'', ''hwid''} \<and>
    (\<forall>p \<in> set (bp_Points (batch fl cfg benchset ks)).
       Measurement p = ''benchmarks'' \<and>
       dom (Tags p) = {''pkg'', ''ncpu'', ''name''} \<and>
       (\<exists>pkg bs b. benchset pkg = Some bs \<and> b \<in> set bs \<and>
          Tags p = [''pkg'' \<mapsto> pkg, ''ncpu'' \<mapsto> Itoa (NumCPU b), ''name'' \<mapsto> Name b]))"
proof (intro conjI ballI)
  show "written (snd (Run fl P W ks cfg w)) = written w @ [batch fl cfg benchset ks]"
    by (simp add: Run_parsed [where P = P and w = w, OF assms])
  show "bp_Time (batch fl cfg benchset ks) = Timestamp cfg" by (simp add: batch_eq)
  show "bp_Precision (batch fl cfg benchset ks) = ''s''" by (simp add: batch_eq)
  show "bp_Database (batch fl cfg benchset ks) = Database cfg" by (simp add: batch_eq)
  show "bp_Tags (batch fl cfg benchset ks) = [''goversion'' \<mapsto> GoVersion cfg, ''hwid'' \<mapsto> HardwareID cfg]"
    by (simp add: batch_eq)
  show "dom (bp_Tags (batch fl cfg benchset ks)) = {''goversion'', ''hwid''}"
    by (auto simp: batch_eq)
next
  fix p assume "p \<in> set (bp_Points (batch fl cfg benchset ks))"
  then have "p \<in> set (concat (map (points_of fl cfg benchset) ks))"
    by (simp add: batch_eq)
  then obtain pkg bs b where b: "benchset pkg = Some bs" "b \<in> set bs" and p: "p = mkPoint fl cfg pkg b"
    using points_of_member by blast
  show "Measurement p = ''benchmarks''" by (simp add: p mkPoint_def)
  show "dom (Tags p) = {''pkg'', ''ncpu'', ''name''}" by (simp only: p dom_Tags_mkPoint)
  have "Tags p = [''pkg'' \<mapsto> pkg, ''ncpu'' \<mapsto> Itoa (NumCPU b), ''name'' \<mapsto> Name b]"
    by (simp add: p mkPoint_def)
  with b show "\<exists>pkg bs b. benchset pkg = Some bs \<and> b \<in> set bs \<and>
          Tags p = [''pkg'' \<mapsto> pkg, ''ncpu'' \<mapsto> Itoa (NumCPU b), ''name'' \<mapsto> Name b]"
    by blast
qed

lemma Itoa_4: "Itoa 4 = ''4''"
  by (simp add: Itoa_def digits.simps)

lemma Itoa_ex: "Itoa 128 = ''128'' \<and> Itoa (- 7) = ''-7'' \<and> Itoa 0 = ''0''"
  by (simp add: Itoa_def digits.simps)

theorem Run_batch_shape_witness:
  "validate ex_cfg = None \<and> ex_parser (reader ex_world) = ((ex_set, None), []) \<and>
   written (snd (Run ex_flags ex_parser ex_writer [''a'', ''b''] ex_cfg ex_world))
     = [batch ex_flags ex_cfg ex_set [''a'', ''b'']] \<and>
   bp_Precision (batch ex_flags ex_cfg ex_set [''a'', ''b'']) = ''s'' \<and>
   mkPoint ex_flags ex_cfg ''a'' ex_bench0 \<in> set (bp_Points (batch ex_flags ex_cfg ex_set [''a'', ''b''])) \<and>
   Measurement (mkPoint ex_flags ex_cfg ''a'' ex_bench0) = ''benchmarks'' \<and>
   dom (Tags (mkPoint ex_flags ex_cfg ''a'' ex_bench0)) = {''pkg'', ''ncpu'', ''name''} \<and>
   Tags (mkPoint ex_flags ex_cfg ''a'' ex_bench0) ''ncpu'' = Some ''4''"
proof -
  note t = Run_batch_shape [where P = ex_parser and w = ex_world and fl = ex_flags
      and W = ex_writer and ks = "[''a'', ''b'']", OF validate_ex_cfg ex_parser_ok]
  have m: "mkPoint ex_flags ex_cfg ''a'' ex_bench0
      \<in> set (bp_Points (batch ex_flags ex_cfg ex_set [''a'', ''b'']))"
    by (simp add: ex_points_ab)
  have w: "written (snd (Run ex_flags ex_parser ex_writer [''a'', ''b''] ex_cfg ex_world))
     = [batch ex_flags ex_cfg ex_set [''a'', ''b'']]"
    using t [THEN conjunct1] by (simp add: ex_world_def)
  note pr = t [THEN conjunct2, THEN conjunct2, THEN conjunct1]
  note pt = t [THEN conjunct2, THEN conjunct2, THEN conjunct2, THEN conjunct2, THEN conjunct2,
      THEN conjunct2, THEN bspec, OF m]
  have n: "Tags (mkPoint ex_flags ex_cfg ''a'' ex_bench0) ''ncpu'' = Some ''4''"
    by (simp add: mkPoint_def ex_bench0_def Itoa_4)
  show ?thesis
    by (intro conjI validate_ex_cfg ex_parser_ok w pr m pt [THEN conjunct1]
        pt [THEN conjunct2, THEN conjunct1] n)
qed

text \<open>
  Claim C7. When validation and parsing succeed, the submitted batch has as many points
  as the map has records in all its packages together, and for each package as many
  points tagged with that package as the package has records.
\<close>

theorem Run_point_count:
  assumes "validate cfg = None" and "P (reader w) = ((benchset, None), rest)"
    and "range_order benchset ks"
  shows "written (snd (Run fl P W ks cfg w)) = written w @ [batch fl cfg benchset ks] \<and>
    length (bp_Points (batch fl cfg benchset ks)) = total_records benchset \<and>
    (\<forall>pkg bs. benchset pkg = Some bs \<longrightarrow>
       length (pkg_points pkg (bp_Points (batch fl cfg benchset ks))) = length bs)"
proof (intro conjI allI impI)
  show "written (snd (Run fl P W ks cfg w)) = written w @ [batch fl cfg benchset ks]"
    by (simp add: Run_parsed [where P = P and w = w, OF assms(1,2)])
  show "length (bp_Points (batch fl cfg benchset ks)) = total_records benchset"
    using assms(3) by (simp add: batch_eq length_points)
next
  fix pkg bs assume b: "benchset pkg = Some bs"
  with assms(3) have "distinct ks" "pkg \<in> set ks" by (auto simp: range_order_def)
  then have "pkg_points pkg (bp_Points (batch fl cfg benchset ks)) = points_of fl cfg benchset pkg"
    by (simp add: batch_eq pkg_points_concat)
  with b show "length (pkg_points pkg (bp_Points (batch fl cfg benchset ks))) = length bs"
    by (simp add: points_of_def)
qed

theorem Run_point_count_witness:
  "validate ex_cfg = None \<and> ex_parser (reader ex_world) = ((ex_set, None), []) \<and>
   range_order ex_set [''b'', ''a''] \<and>
   ex_set ''a'' = Some [ex_bench0] \<and> ex_set ''b'' = Some [ex_bench15] \<and>
   length (bp_Points (batch ex_flags ex_cfg ex_set [''b'', ''a''])) = 2 \<and>
   length (pkg_points ''a'' (bp_Points (batch ex_flags ex_cfg ex_set [''b'', ''a'']))) = 1 \<and>
   length (pkg_points ''b'' (bp_Points (batch ex_flags ex_cfg ex_set [''b'', ''a'']))) = 1 \<and>
   pkg_tags (bp_Points (batch ex_flags ex_cfg ex_set [''b'', ''a''])) = [Some ''b'', Some ''a'']"
proof -
  note t = Run_point_count [where P = ex_parser and w = ex_world and fl = ex_flags
      and W = ex_writer, OF validate_ex_cfg ex_parser_ok range_order_ba]
  have n: "length (bp_Points (batch ex_flags ex_cfg ex_set [''b'', ''a''])) = 2"
    using t [THEN conjunct2, THEN conjunct1] by (simp only: total_records_ex_set)
  note each = t [THEN conjunct2, THEN conjunct2, THEN spec, THEN spec, THEN mp]
  have a: "length (pkg_points ''a'' (bp_Points (batch ex_flags ex_cfg ex_set [''b'', ''a'']))) = 1"
    using each [OF ex_set_a] by simp
  have b: "length (pkg_points ''b'' (bp_Points (batch ex_flags ex_cfg ex_set [''b'', ''a'']))) = 1"
    using each [OF ex_set_b] by simp
  have g: "pkg_tags (bp_Points (batch ex_flags ex_cfg ex_set [''b'', ''a''])) = [Some ''b'', Some ''a'']"
    by (simp add: ex_points_ba pkg_tags_def pkg_tag_mkPoint)
  show ?thesis
    by (intro conjI validate_ex_cfg ex_parser_ok range_order_ba ex_set_a ex_set_b n a b g)
qed

text \<open>
  Claim C8. When validation and parsing succeed, \<open>Run\<close> appends the batch to the
  batches handed to the client, once, and returns what the client's \<open>Write\<close> answers for
  it. \<open>Run\<close> returns nil exactly when validation, parsing and that write return nil.
  In every case at most that one batch is handed to the client.
\<close>

theorem Run_single_write:
  "(validate cfg = None \<and> P (reader w) = ((benchset, None), rest) \<longrightarrow>
      Run fl P W ks cfg w =
        (W (batch fl cfg benchset ks),
         w\<lparr>reader := rest, written := written w @ [batch fl cfg benchset ks]\<rparr>)) \<and>
   (fst (Run fl P W ks cfg w) = None \<longleftrightarrow>
      validate cfg = None \<and> snd (fst (P (reader w))) = None \<and>
      W (batch fl cfg (fst (fst (P (reader w)))) ks) = None) \<and>
   (written (snd (Run fl P W ks cfg w)) = written w \<or>
    written (snd (Run fl P W ks cfg w)) = written w @ [batch fl cfg (fst (fst (P (reader w)))) ks])"
proof (intro conjI impI)
  show "Run fl P W ks cfg w =
        (W (batch fl cfg benchset ks),
         w\<lparr>reader := rest, written := written w @ [batch fl cfg benchset ks]\<rparr>)"
    if "validate cfg = None \<and> P (reader w) = ((benchset, None), rest)"
    using that by (simp add: Run_parsed)
  show "fst (Run fl P W ks cfg w) = None \<longleftrightarrow>
      validate cfg = None \<and> snd (fst (P (reader w))) = None \<and>
      W (batch fl cfg (fst (fst (P (reader w)))) ks) = None"
    by (auto simp: Run_def Let_def split: option.splits prod.splits)
  show "written (snd (Run fl P W ks cfg w)) = written w \<or>
    written (snd (Run fl P W ks cfg w)) = written w @ [batch fl cfg (fst (fst (P (reader w)))) ks]"
    by (auto simp: Run_def Let_def split: option.splits prod.splits)
qed

theorem Run_single_write_witness:
  "validate ex_cfg = None \<and> ex_parser (reader ex_world) = ((ex_set, None), []) \<and>
   Run ex_flags ex_parser ex_failing_writer [''a'', ''b''] ex_cfg ex_world =
     (Some (errorString ''connection refused''),
      ex_world\<lparr>reader := [], written := written ex_world @ [batch ex_flags ex_cfg ex_set [''a'', ''b'']]\<rparr>) \<and>
   fst (Run ex_flags ex_parser ex_writer [''a'', ''b''] ex_cfg ex_world) = None"
proof -
  note f = Run_single_write [where P = ex_parser and w = ex_world and fl = ex_flags
      and W = ex_failing_writer and ks = "[''a'', ''b'']" and cfg = ex_cfg and benchset = ex_set
      and rest = "[]"]
  note s = Run_single_write [where P = ex_parser and w = ex_world and fl = ex_flags
      and W = ex_writer and ks = "[''a'', ''b'']" and cfg = ex_cfg and benchset = ex_set
      and rest = "[]"]
  have r: "Run ex_flags ex_parser ex_failing_writer [''a'', ''b''] ex_cfg ex_world =
     (Some (errorString ''connection refused''),
      ex_world\<lparr>reader := [], written := written ex_world @ [batch ex_flags ex_cfg ex_set [''a'', ''b'']]\<rparr>)"
    using f [THEN conjunct1, THEN mp, OF conjI, OF validate_ex_cfg ex_parser_ok]
    by (simp add: ex_failing_writer_def)
  have ok: "fst (Run ex_flags ex_parser ex_writer [''a'', ''b''] ex_cfg ex_world) = None"
    using s [THEN conjunct2, THEN conjunct1] validate_ex_cfg
    by (simp add: ex_parser_ok ex_writer_def)
  show ?thesis
    by (intro conjI validate_ex_cfg ex_parser_ok r ok)
qed

end
